theory Spec2Isabelle
  imports Complex_Main
begin

section \<open>Data model (src/types.ts)\<close>

text \<open>
  The hireability scoring engine of \<^verbatim>\<open>src/services/scoringEngine.ts\<close> is embedded
  as HOL functions. JavaScript numbers are idealised: counts are \<open>nat\<close>, time values
  (milliseconds since the epoch, what \<^verbatim>\<open>new Date(s).getTime()\<close> returns for a
  timestamp text that parses) are \<open>int\<close>, and every other number is a \<open>real\<close>, so
  rounding errors of IEEE doubles are not part of the model. \<^verbatim>\<open>Math.round\<close> is
  \<open>round\<close> (halves go up, as in JavaScript), \<^verbatim>\<open>Math.floor\<close> is \<open>floor\<close>,
  \<^verbatim>\<open>Math.log10\<close> is \<open>log 10\<close>.

  Only the fields the engine reads are kept. A description or language that the
  hosting API delivers as \<^verbatim>\<open>null\<close> is \<open>None\<close>.
\<close>

datatype ActivityLevel = HIGHLY_ACTIVE | MODERATELY_ACTIVE | INACTIVE

record GitHubProfile =
  followers :: nat
  created_at :: int

record GitHubRepo =
  description :: "string option"
  stargazers_count :: nat
  language :: "string option"
  pushed_at :: int
  size_r :: nat
  fork :: bool
  has_issues :: bool
  has_projects :: bool
  has_pages :: bool

text \<open>
  The field \<^verbatim>\<open>lastCommitDate\<close> is a text: the literal \<^verbatim>\<open>'N/A'\<close>, here \<open>NA\<close>, or
  \<^verbatim>\<open>toISOString()\<close> of a time value \<open>t\<close>, here \<open>ISO t\<close>.
\<close>

datatype commit_date = NA | ISO int

record ScoringMetrics =
  totalScore :: int
  repoCountScore :: int
  starImpact :: int
  activityScore :: int
  diversityScore :: int
  followerSignal :: int
  documentationScore :: int
  originalityScore :: int
  activityLevel :: ActivityLevel
  lastCommitDate :: commit_date
  daysSinceLastActivity :: int
  recentActivityVelocity :: nat

section \<open>The clock and the Date object\<close>

text \<open>
  The engine reads the clock twice: \<^verbatim>\<open>const now = new Date()\<close> (line 16) and
  \<^verbatim>\<open>const ninetyDaysAgo = new Date()\<close> (line 17). Both readings are inputs of the
  model, with the offset of local time from UTC (taken as constant: no daylight
  saving change between the dates involved).
\<close>

record clock =
  nowTime :: int
  ninetyTime :: int
  localTZA :: int

definition msPerDay :: int where
  "msPerDay = 1000 * 60 * 60 * 24"

definition Day :: "int \<Rightarrow> int" where
  "Day t = t div msPerDay"

definition TimeWithinDay :: "int \<Rightarrow> int" where
  "TimeWithinDay t = t mod msPerDay"

text \<open>
  Day of the month (1 to 31) of a day number counted from 1 January 1970, in the
  proleptic Gregorian calendar: the day number is shifted to an era of 400 years
  beginning on 1 March, where the leap day is the last day of a year.
\<close>

definition DateFromDay :: "int \<Rightarrow> int" where
  "DateFromDay n =
     (let z = n + 719468;
          doe = z mod 146097;
          yoe = (doe - doe div 1460 + doe div 36524 - doe div 146096) div 365;
          doy = doe - (365 * yoe + yoe div 4 - yoe div 100);
          mp = (5 * doy + 2) div 153
      in doy - (153 * mp + 2) div 5 + 1)"

definition DateFromTime :: "int \<Rightarrow> int" where
  "DateFromTime t = DateFromDay (Day t)"

text \<open>\<^verbatim>\<open>d.getDate()\<close>: the day of the month of \<open>d\<close> in local time.\<close>

definition getDate :: "int \<Rightarrow> int \<Rightarrow> int" where
  "getDate tz t = DateFromTime (t + tz)"

text \<open>
  \<^verbatim>\<open>d.setDate(dt)\<close>: the day of the month of \<open>d\<close> in local time is replaced by
  \<open>dt\<close>, which may lie outside the month and then counts from the first of the
  month of \<open>d\<close>; the time within the day is kept. The result is the new time value.
\<close>

definition setDate :: "int \<Rightarrow> int \<Rightarrow> int \<Rightarrow> int" where
  "setDate tz t dt =
     (let lt = t + tz;
          firstOfMonth = Day lt - (DateFromTime lt - 1)
      in ((firstOfMonth + dt - 1) * msPerDay + TimeWithinDay lt) - tz)"

section \<open>calculateHireabilityScore (src/services/scoringEngine.ts)\<close>

definition ninetyDaysAgo :: "clock \<Rightarrow> int" where
  "ninetyDaysAgo c =
     setDate (localTZA c) (ninetyTime c) (getDate (localTZA c) (nowTime c) - 90)"

definition originalRepos :: "GitHubRepo list \<Rightarrow> GitHubRepo list" where
  "originalRepos repos = filter (\<lambda>r. \<not> fork r) repos"

definition forkCount :: "GitHubRepo list \<Rightarrow> int" where
  "forkCount repos = int (length repos) - int (length (originalRepos repos))"

definition originalityRatio :: "GitHubRepo list \<Rightarrow> real" where
  "originalityRatio repos =
     (if length repos > 0 then real (length (originalRepos repos)) / real (length repos)
      else 0)"

subsection \<open>1. Activity velocity\<close>

text \<open>
  \<^verbatim>\<open>[...repos].sort((a, b) => time(b) - time(a))\<close>: a stable sort, latest push first.
\<close>

definition sortedByPush :: "GitHubRepo list \<Rightarrow> GitHubRepo list" where
  "sortedByPush repos = sort_key (\<lambda>r. - pushed_at r) repos"

definition lastDate :: "GitHubRepo list \<Rightarrow> int" where
  "lastDate repos = pushed_at (hd (sortedByPush repos))"

text \<open>
  The three variables the source initialises to \<^verbatim>\<open>'N/A'\<close>, 999 and 0 and assigns
  inside \<^verbatim>\<open>if (repos.length > 0)\<close>. The suffix \<open>_local\<close> tells a local of the
  source from the field of the returned record that has its name.
\<close>

definition lastCommitDate_local :: "GitHubRepo list \<Rightarrow> commit_date" where
  "lastCommitDate_local repos = (if length repos > 0 then ISO (lastDate repos) else NA)"

definition daysSinceLastActivity_local :: "clock \<Rightarrow> GitHubRepo list \<Rightarrow> int" where
  "daysSinceLastActivity_local c repos =
     (if length repos > 0
      then \<lfloor>real_of_int (nowTime c - lastDate repos) / real_of_int msPerDay\<rfloor>
      else 999)"

definition recentActivityVelocity_local :: "clock \<Rightarrow> GitHubRepo list \<Rightarrow> nat" where
  "recentActivityVelocity_local c repos =
     (if length repos > 0
      then length (filter (\<lambda>repo. pushed_at repo \<ge> ninetyDaysAgo c) repos)
      else 0)"

definition activityLevel_local :: "clock \<Rightarrow> GitHubRepo list \<Rightarrow> ActivityLevel" where
  "activityLevel_local c repos =
     (if daysSinceLastActivity_local c repos \<le> 7 \<and> recentActivityVelocity_local c repos \<ge> 5
      then HIGHLY_ACTIVE
      else if daysSinceLastActivity_local c repos \<le> 30 \<and> recentActivityVelocity_local c repos \<ge> 1
      then MODERATELY_ACTIVE
      else INACTIVE)"

definition recencyMultiplier :: "clock \<Rightarrow> GitHubRepo list \<Rightarrow> real" where
  "recencyMultiplier c repos =
     (if daysSinceLastActivity_local c repos = 0 then 1
      else max 0 (1 - (real_of_int (daysSinceLastActivity_local c repos) / 90)))"

definition activityScore_local :: "clock \<Rightarrow> GitHubRepo list \<Rightarrow> real" where
  "activityScore_local c repos =
     (min 10 (real (recentActivityVelocity_local c repos)) * 3) * recencyMultiplier c repos"

subsection \<open>2. Originality\<close>

definition originalityScore_local :: "GitHubRepo list \<Rightarrow> real" where
  "originalityScore_local repos = originalityRatio repos * 20"

subsection \<open>3. Technical breadth and stars\<close>

definition totalStars :: "GitHubRepo list \<Rightarrow> nat" where
  "totalStars repos = foldl (\<lambda>sum r. sum + stargazers_count r) 0 (originalRepos repos)"

text \<open>\<^verbatim>\<open>Boolean(x)\<close> on a text that may be absent: false for null and for the empty text.\<close>

definition Boolean :: "string option \<Rightarrow> bool" where
  "Boolean x = (case x of None \<Rightarrow> False | Some s \<Rightarrow> s \<noteq> [])"

definition languages :: "GitHubRepo list \<Rightarrow> string option set" where
  "languages repos = set (filter Boolean (map language (originalRepos repos)))"

definition starBonus :: "GitHubRepo list \<Rightarrow> real" where
  "starBonus repos = min 5 ((log 10 (real (totalStars repos) + 1) / 2) * 5)"

definition languageBonus :: "GitHubRepo list \<Rightarrow> real" where
  "languageBonus repos = min 10 ((real (card (languages repos)) / 4) * 10)"

definition diversityScore_local :: "GitHubRepo list \<Rightarrow> real" where
  "diversityScore_local repos = starBonus repos + languageBonus repos"

subsection \<open>4. Documentation signal\<close>

text \<open>\<^verbatim>\<open>r.description?.length || 0\<close>\<close>

definition descriptionLength :: "GitHubRepo \<Rightarrow> nat" where
  "descriptionLength r = (case description r of None \<Rightarrow> 0 | Some d \<Rightarrow> length d)"

definition reposWithDesc :: "GitHubRepo list \<Rightarrow> nat" where
  "reposWithDesc repos = length (filter (\<lambda>r. descriptionLength r > 20) (originalRepos repos))"

definition featureUsage :: "GitHubRepo list \<Rightarrow> nat" where
  "featureUsage repos =
     length (filter (\<lambda>r. has_issues r \<or> has_pages r \<or> has_projects r) (originalRepos repos))"

definition docRatio :: "GitHubRepo list \<Rightarrow> real" where
  "docRatio repos =
     (if length (originalRepos repos) > 0
      then real (reposWithDesc repos + featureUsage repos) / real (length (originalRepos repos) * 2)
      else 0)"

definition documentationScore_local :: "GitHubRepo list \<Rightarrow> real" where
  "documentationScore_local repos = docRatio repos * 15"

subsection \<open>5. Social signal and maturity\<close>

definition accountAgeYears :: "clock \<Rightarrow> GitHubProfile \<Rightarrow> real" where
  "accountAgeYears c profile =
     real_of_int (nowTime c - created_at profile) / (1000 * 60 * 60 * 24 * 365)"

definition ageScore :: "clock \<Rightarrow> GitHubProfile \<Rightarrow> real" where
  "ageScore c profile = min 5 (accountAgeYears c profile)"

definition followerScore :: "GitHubProfile \<Rightarrow> real" where
  "followerScore profile = min 5 ((real (followers profile) / 100) * 5)"

definition followerSignal_local :: "clock \<Rightarrow> GitHubProfile \<Rightarrow> real" where
  "followerSignal_local c profile = ageScore c profile + followerScore profile"

subsection \<open>6. Complexity\<close>

definition avgSize :: "GitHubRepo list \<Rightarrow> real" where
  "avgSize repos =
     (if length (originalRepos repos) > 0
      then real (foldl (\<lambda>sum r. sum + size_r r) 0 (originalRepos repos))
             / real (length (originalRepos repos))
      else 0)"

definition complexityScore :: "GitHubRepo list \<Rightarrow> real" where
  "complexityScore repos = min 10 ((log 10 (avgSize repos + 1) / 5) * 10)"

subsection \<open>Total and the returned record\<close>

definition unroundedSum :: "clock \<Rightarrow> GitHubProfile \<Rightarrow> GitHubRepo list \<Rightarrow> real" where
  "unroundedSum c profile repos =
     activityScore_local c repos +
     originalityScore_local repos +
     diversityScore_local repos +
     documentationScore_local repos +
     followerSignal_local c profile +
     complexityScore repos"

definition totalScore_local :: "clock \<Rightarrow> GitHubProfile \<Rightarrow> GitHubRepo list \<Rightarrow> int" where
  "totalScore_local c profile repos = round (unroundedSum c profile repos)"

definition calculateHireabilityScore ::
    "clock \<Rightarrow> GitHubProfile \<Rightarrow> GitHubRepo list \<Rightarrow> ScoringMetrics" where
  "calculateHireabilityScore c profile repos =
     \<lparr> totalScore = totalScore_local c profile repos,
       repoCountScore = round (originalityScore_local repos),
       starImpact = round (starBonus repos),
       activityScore = round (activityScore_local c repos),
       diversityScore = round (diversityScore_local repos),
       followerSignal = round (followerSignal_local c profile),
       documentationScore = round (documentationScore_local repos),
       originalityScore = round (originalityScore_local repos),
       activityLevel = activityLevel_local c repos,
       lastCommitDate = lastCommitDate_local repos,
       daysSinceLastActivity = daysSinceLastActivity_local c repos,
       recentActivityVelocity = recentActivityVelocity_local c repos \<rparr>"

section \<open>Example inputs\<close>

text \<open>
  Concrete inputs on which the engine is evaluated below. \<open>exampleNow\<close> is
  2023-11-14T22:13:20.000Z; \<open>clockAt t\<close> is a call in which both clock readings
  return \<open>t\<close>, in a UTC environment.
\<close>

definition exampleNow :: int where
  "exampleNow = 1700000000000"

definition clockAt :: "int \<Rightarrow> clock" where
  "clockAt t = \<lparr> nowTime = t, ninetyTime = t, localTZA = 0 \<rparr>"

definition repo0 :: GitHubRepo where
  "repo0 = \<lparr> description = None, stargazers_count = 0, language = None, pushed_at = 0,
             size_r = 0, fork = False, has_issues = False, has_projects = False,
             has_pages = False \<rparr>"

definition newProfile :: GitHubProfile where
  "newProfile = \<lparr> followers = 0, created_at = exampleNow \<rparr>"

definition futureRepos :: "GitHubRepo list" where
  "futureRepos = [repo0 \<lparr> pushed_at := exampleNow + 900 * msPerDay \<rparr>]"

definition futureProfile :: GitHubProfile where
  "futureProfile = \<lparr> followers = 0, created_at = exampleNow + 3650 * msPerDay \<rparr>"

definition forkLatestRepos :: "GitHubRepo list" where
  "forkLatestRepos =
     [repo0 \<lparr> pushed_at := exampleNow - 40 * msPerDay \<rparr>,
      repo0 \<lparr> pushed_at := exampleNow - 3 * msPerDay, fork := True \<rparr>]"

definition ninetyDayRepos :: "GitHubRepo list" where
  "ninetyDayRepos = [repo0 \<lparr> pushed_at := exampleNow - 90 * msPerDay \<rparr>]"

definition roundingRepos :: "GitHubRepo list" where
  "roundingRepos =
     [repo0 \<lparr> language := Some ''Go'', has_issues := True, pushed_at := exampleNow \<rparr>]"

definition threeLanguageRepos :: "GitHubRepo list" where
  "threeLanguageRepos =
     [repo0 \<lparr> language := Some ''Go'' \<rparr>,
      repo0 \<lparr> language := Some ''Rust'' \<rparr>,
      repo0 \<lparr> language := Some ''Go'' \<rparr>,
      repo0 \<lparr> language := Some '''' \<rparr>,
      repo0,
      repo0 \<lparr> language := Some ''C'' \<rparr>,
      repo0 \<lparr> language := Some ''Java'', stargazers_count := 7, fork := True \<rparr>]"

definition fourLanguageRepos :: "GitHubRepo list" where
  "fourLanguageRepos =
     [repo0 \<lparr> language := Some ''Go'', stargazers_count := 4 \<rparr>,
      repo0 \<lparr> language := Some ''Rust'', stargazers_count := 5 \<rparr>,
      repo0 \<lparr> language := Some ''C'' \<rparr>,
      repo0 \<lparr> language := Some ''Java'' \<rparr>,
      repo0 \<lparr> language := Some ''Python'' \<rparr>]"

definition docRepos :: "GitHubRepo list" where
  "docRepos =
     [repo0 \<lparr> description := Some ''abcdefghijklmnopqrstu'' \<rparr>,
      repo0 \<lparr> description := Some ''abcdefghijklmnopqrst'', has_pages := True \<rparr>,
      repo0,
      repo0 \<lparr> description := Some ''a fork with a long description'', has_issues := True,
              fork := True \<rparr>]"

definition lateClock :: clock where
  "lateClock = \<lparr> nowTime = exampleNow, ninetyTime = exampleNow + 1, localTZA = 0 \<rparr>"

definition monthEndClock :: clock where
  "monthEndClock = \<lparr> nowTime = 1706745599999, ninetyTime = 1706745600000, localTZA = 0 \<rparr>"

section \<open>Facts about the Date model\<close>

text \<open>
  The day-of-month function agrees with the calendar on known dates: 1 January 1970
  is day 0; 28 February and 1 March 1970; 31 December 1969; 29 February 2000;
  31 January, 1 February and 29 February 2024; 28 February 1900 (1900 is not a
  leap year).
\<close>

lemma DateFromDay_examples:
  "DateFromDay 0 = 1" "DateFromDay 58 = 28" "DateFromDay 59 = 1" "DateFromDay (- 1) = 31"
  "DateFromDay 11016 = 29" "DateFromDay 19753 = 31" "DateFromDay 19754 = 1"
  "DateFromDay 19782 = 29" "DateFromDay (- 25509) = 28"
  by code_simp+

lemma msPerDay_pos: "0 < msPerDay"
  by (simp add: msPerDay_def)

text \<open>
  Setting the day of the month of a date to its own day of the month minus \<open>k\<close>
  moves the date back by exactly \<open>k\<close> days. The engine does this to the second
  clock reading with the day of the month of the first.
\<close>

lemma setDate_getDate_same:
  "setDate tz t (getDate tz t - k) = t - k * msPerDay"
proof -
  have "Day (t + tz) * msPerDay + TimeWithinDay (t + tz) = t + tz"
    by (simp add: Day_def TimeWithinDay_def)
  then show ?thesis
    by (simp add: setDate_def getDate_def Let_def algebra_simps)
qed

lemma single_clock_reading_window:
  "ninetyTime c = nowTime c \<Longrightarrow> ninetyDaysAgo c = nowTime c - 90 * msPerDay"
  by (simp add: ninetyDaysAgo_def setDate_getDate_same)

lemma ninetyDaysAgo_clockAt: "ninetyDaysAgo (clockAt t) = t - 90 * msPerDay"
  by (simp add: ninetyDaysAgo_def clockAt_def setDate_getDate_same)

text \<open>
  When the month changes between the two clock readings, the window is not 90 days:
  with the first reading at 2024-01-31T23:59:59.999Z and the second one millisecond
  later, \<open>ninetyDaysAgo\<close> is 2023-12-03T00:00:00.000Z (day 19694), 31 days later than
  90 days before the first reading.
\<close>

lemma monthEnd_window:
  "ninetyDaysAgo monthEndClock = 19694 * msPerDay
   \<and> nowTime monthEndClock - 90 * msPerDay = 19664 * msPerDay - 1"
proof -
  have d1: "Day 1706745599999 = 19753" by (simp add: Day_def msPerDay_def)
  have d2: "Day 1706745600000 = 19754" by (simp add: Day_def msPerDay_def)
  have t2: "TimeWithinDay 1706745600000 = 0" by (simp add: TimeWithinDay_def msPerDay_def)
  show ?thesis
    by (simp add: ninetyDaysAgo_def monthEndClock_def setDate_def getDate_def DateFromTime_def
        d1 d2 t2 DateFromDay_examples Let_def) (simp add: msPerDay_def)
qed

section \<open>The latest push and the day gap\<close>

text \<open>
  The head of the sorted copy carries the greatest push time of the whole list, forks
  included, and \<^verbatim>\<open>Math.floor\<close> of the quotient is integer division rounding down.
\<close>

lemma sortedByPush_set: "set (sortedByPush repos) = set repos"
  by (simp add: sortedByPush_def)

lemma sortedByPush_Nil_iff: "sortedByPush repos = [] \<longleftrightarrow> repos = []"
  by (metis sortedByPush_set set_empty)

lemma lastDate_in: "repos \<noteq> [] \<Longrightarrow> lastDate repos \<in> pushed_at ` set repos"
proof -
  assume ne: "repos \<noteq> []"
  then have "sortedByPush repos \<noteq> []" by (simp add: sortedByPush_Nil_iff)
  then have "hd (sortedByPush repos) \<in> set (sortedByPush repos)" by simp
  then show ?thesis by (simp add: lastDate_def sortedByPush_set)
qed

lemma lastDate_upper:
  assumes "r \<in> set repos"
  shows "pushed_at r \<le> lastDate repos"
proof -
  let ?ys = "sortedByPush repos"
  have srt: "sorted (map (\<lambda>r. - pushed_at r) ?ys)"
    by (simp add: sortedByPush_def)
  from assms have rin: "r \<in> set ?ys" by (simp add: sortedByPush_set)
  then obtain y ys where ys: "?ys = y # ys" by (cases ?ys) auto
  with srt rin have "- pushed_at y \<le> - pushed_at r" by auto
  with ys show ?thesis by (simp add: lastDate_def)
qed

lemma lastDate_Max: "repos \<noteq> [] \<Longrightarrow> lastDate repos = Max (pushed_at ` set repos)"
proof -
  assume ne: "repos \<noteq> []"
  show ?thesis
  proof (rule Max_eqI [symmetric])
    show "finite (pushed_at ` set repos)" by simp
    show "\<And>y. y \<in> pushed_at ` set repos \<Longrightarrow> y \<le> lastDate repos"
      using lastDate_upper by auto
    show "lastDate repos \<in> pushed_at ` set repos" using ne by (rule lastDate_in)
  qed
qed

lemma lastDate_single: "lastDate [r] = pushed_at r"
  by (simp add: lastDate_def sortedByPush_def)

lemma days_div:
  "repos \<noteq> [] \<Longrightarrow> daysSinceLastActivity_local c repos = (nowTime c - lastDate repos) div msPerDay"
proof -
  assume "repos \<noteq> []"
  then have "daysSinceLastActivity_local c repos =
      \<lfloor>real_of_int (nowTime c - lastDate repos) / real_of_int msPerDay\<rfloor>"
    by (simp add: daysSinceLastActivity_local_def)
  also have "\<dots> = (nowTime c - lastDate repos) div msPerDay"
    by (rule floor_divide_of_int_eq)
  finally show ?thesis .
qed

lemma days_nonneg_without_future_push:
  assumes "\<forall>r \<in> set repos. pushed_at r \<le> nowTime c"
  shows "0 \<le> daysSinceLastActivity_local c repos"
proof (cases "repos = []")
  case True
  then show ?thesis by (simp add: daysSinceLastActivity_local_def)
next
  case False
  then have "lastDate repos \<in> pushed_at ` set repos" by (rule lastDate_in)
  with assms have "lastDate repos \<le> nowTime c" by auto
  then show ?thesis
    using msPerDay_pos by (simp add: days_div [OF False] pos_imp_zdiv_nonneg_iff)
qed

section \<open>Ranges of the unrounded sub-scores\<close>

lemma recencyMultiplier_nonneg: "0 \<le> recencyMultiplier c repos"
  by (simp add: recencyMultiplier_def)

lemma activityScore_local_nonneg: "0 \<le> activityScore_local c repos"
  by (simp add: activityScore_local_def recencyMultiplier_nonneg)

lemma activityScore_local_upper:
  assumes "\<forall>r \<in> set repos. pushed_at r \<le> nowTime c"
  shows "activityScore_local c repos \<le> 30"
proof -
  have d: "0 \<le> daysSinceLastActivity_local c repos"
    using assms by (rule days_nonneg_without_future_push)
  then have m: "recencyMultiplier c repos \<le> 1"
    by (simp add: recencyMultiplier_def)
  have v: "min 10 (real (recentActivityVelocity_local c repos)) * 3 \<le> 30"
    by simp
  have "(min 10 (real (recentActivityVelocity_local c repos)) * 3) * recencyMultiplier c repos
      \<le> 30 * 1"
    using v m recencyMultiplier_nonneg [of c repos] by (intro mult_mono) simp_all
  then show ?thesis by (simp add: activityScore_local_def)
qed

lemma length_originalRepos_le: "length (originalRepos repos) \<le> length repos"
  by (simp add: originalRepos_def)

lemma originalityRatio_bounds: "0 \<le> originalityRatio repos \<and> originalityRatio repos \<le> 1"
  by (simp add: originalityRatio_def length_originalRepos_le)

lemma originalityScore_local_bounds:
  "0 \<le> originalityScore_local repos \<and> originalityScore_local repos \<le> 20"
  using originalityRatio_bounds [of repos] by (simp add: originalityScore_local_def)

lemma starBonus_bounds: "0 \<le> starBonus repos \<and> starBonus repos \<le> 5"
  by (simp add: starBonus_def)

lemma languageBonus_bounds: "0 \<le> languageBonus repos \<and> languageBonus repos \<le> 10"
  by (simp add: languageBonus_def)

lemma diversityScore_local_bounds:
  "0 \<le> diversityScore_local repos \<and> diversityScore_local repos \<le> 15"
  using starBonus_bounds [of repos] languageBonus_bounds [of repos]
  by (simp add: diversityScore_local_def)

lemma reposWithDesc_le: "reposWithDesc repos \<le> length (originalRepos repos)"
  by (simp add: reposWithDesc_def)

lemma featureUsage_le: "featureUsage repos \<le> length (originalRepos repos)"
  by (simp add: featureUsage_def)

lemma docRatio_bounds: "0 \<le> docRatio repos \<and> docRatio repos \<le> 1"
  using reposWithDesc_le [of repos] featureUsage_le [of repos]
  by (simp add: docRatio_def)

lemma documentationScore_local_bounds:
  "0 \<le> documentationScore_local repos \<and> documentationScore_local repos \<le> 15"
  using docRatio_bounds [of repos] by (simp add: documentationScore_local_def)

lemma followerScore_bounds: "0 \<le> followerScore profile \<and> followerScore profile \<le> 5"
  by (simp add: followerScore_def)

lemma followerSignal_local_upper: "followerSignal_local c profile \<le> 10"
proof -
  have "ageScore c profile \<le> 5" by (simp add: ageScore_def)
  with followerScore_bounds [of profile] show ?thesis
    by (simp add: followerSignal_local_def)
qed

lemma followerSignal_local_nonneg:
  "created_at profile \<le> nowTime c \<Longrightarrow> 0 \<le> followerSignal_local c profile"
  using followerScore_bounds [of profile]
  by (simp add: followerSignal_local_def ageScore_def accountAgeYears_def)

lemma avgSize_nonneg: "0 \<le> avgSize repos"
  by (simp add: avgSize_def)

lemma complexityScore_bounds: "0 \<le> complexityScore repos \<and> complexityScore repos \<le> 10"
  using avgSize_nonneg [of repos] by (simp add: complexityScore_def)

text \<open>
  With no push time and no account creation time after the first clock reading, every
  unrounded sub-score lies between 0 and its maximum weight.
\<close>

lemma sub_scores_in_range_without_future_timestamps:
  assumes "\<forall>r \<in> set repos. pushed_at r \<le> nowTime c"
    and "created_at profile \<le> nowTime c"
  shows "0 \<le> activityScore_local c repos \<and> activityScore_local c repos \<le> 30
    \<and> 0 \<le> originalityScore_local repos \<and> originalityScore_local repos \<le> 20
    \<and> 0 \<le> diversityScore_local repos \<and> diversityScore_local repos \<le> 15
    \<and> 0 \<le> documentationScore_local repos \<and> documentationScore_local repos \<le> 15
    \<and> 0 \<le> followerSignal_local c profile \<and> followerSignal_local c profile \<le> 10
    \<and> 0 \<le> complexityScore repos \<and> complexityScore repos \<le> 10"
  using activityScore_local_nonneg [of c repos] activityScore_local_upper [OF assms(1)]
    originalityScore_local_bounds [of repos] diversityScore_local_bounds [of repos]
    documentationScore_local_bounds [of repos]
    followerSignal_local_nonneg [OF assms(2)] followerSignal_local_upper [of c profile]
    complexityScore_bounds [of repos]
  by simp

lemma unroundedSum_nonneg:
  assumes "created_at profile \<le> nowTime c"
  shows "0 \<le> unroundedSum c profile repos"
proof -
  have "0 \<le> activityScore_local c repos" by (rule activityScore_local_nonneg)
  moreover have "0 \<le> originalityScore_local repos"
    using originalityScore_local_bounds [of repos] by simp
  moreover have "0 \<le> diversityScore_local repos"
    using diversityScore_local_bounds [of repos] by simp
  moreover have "0 \<le> documentationScore_local repos"
    using documentationScore_local_bounds [of repos] by simp
  moreover have "0 \<le> followerSignal_local c profile"
    using assms by (rule followerSignal_local_nonneg)
  moreover have "0 \<le> complexityScore repos"
    using complexityScore_bounds [of repos] by simp
  ultimately show ?thesis by (simp add: unroundedSum_def)
qed

lemma round_nonneg: "0 \<le> x \<Longrightarrow> 0 \<le> round x" for x :: real
  by (simp add: round_def)

section \<open>Reductions and sets\<close>

lemma foldl_add_sum_list:
  "foldl (\<lambda>sum r. sum + f r) a xs = a + sum_list (map f xs)" for a :: nat
  by (induction xs arbitrary: a) simp_all

lemma totalStars_sum_list:
  "totalStars repos = sum_list (map stargazers_count (originalRepos repos))"
  by (simp add: totalStars_def foldl_add_sum_list)

lemma languages_names:
  "languages repos =
     Some ` {l. l \<noteq> [] \<and> (\<exists>r \<in> set (originalRepos repos). language r = Some l)}"
proof (rule set_eqI)
  fix x
  show "x \<in> languages repos \<longleftrightarrow>
      x \<in> Some ` {l. l \<noteq> [] \<and> (\<exists>r \<in> set (originalRepos repos). language r = Some l)}"
    by (cases x) (force simp add: languages_def Boolean_def image_iff)+
qed

lemma card_languages:
  "card (languages repos) =
     card {l. l \<noteq> [] \<and> (\<exists>r \<in> set (originalRepos repos). language r = Some l)}"
  unfolding languages_names by (rule card_image) simp

section \<open>The engine on the example inputs\<close>

subsection \<open>The empty repository list\<close>

lemma activityScore_local_Nil: "activityScore_local c [] = 0"
  by (simp add: activityScore_local_def recentActivityVelocity_local_def)

lemma originalityScore_local_Nil: "originalityScore_local [] = 0"
  by (simp add: originalityScore_local_def originalityRatio_def)

lemma diversityScore_local_Nil: "diversityScore_local [] = 0"
  by (simp add: diversityScore_local_def starBonus_def totalStars_def languageBonus_def
      languages_def originalRepos_def)

lemma documentationScore_local_Nil: "documentationScore_local [] = 0"
  by (simp add: documentationScore_local_def docRatio_def originalRepos_def)

lemma complexityScore_Nil: "complexityScore [] = 0"
  by (simp add: complexityScore_def avgSize_def originalRepos_def)

subsection \<open>Timestamps after the clock reading\<close>

lemma future_days: "daysSinceLastActivity_local (clockAt exampleNow) futureRepos = - 900"
  by (simp add: daysSinceLastActivity_local_def futureRepos_def lastDate_single clockAt_def
      repo0_def msPerDay_def)

lemma future_velocity: "recentActivityVelocity_local (clockAt exampleNow) futureRepos = 1"
  by (simp add: recentActivityVelocity_local_def futureRepos_def ninetyDaysAgo_clockAt
      repo0_def msPerDay_def)

lemma future_activity: "activityScore_local (clockAt exampleNow) futureRepos = 33"
  by (simp add: activityScore_local_def recencyMultiplier_def future_days future_velocity)

lemma future_followerSignal: "followerSignal_local (clockAt exampleNow) futureProfile = - 10"
  by (simp add: followerSignal_local_def ageScore_def accountAgeYears_def followerScore_def
      futureProfile_def clockAt_def msPerDay_def)

subsection \<open>One original repository pushed at the clock reading\<close>

lemma rounding_days: "daysSinceLastActivity_local (clockAt exampleNow) roundingRepos = 0"
  by (simp add: daysSinceLastActivity_local_def lastDate_single roundingRepos_def repo0_def
      clockAt_def)

lemma rounding_velocity: "recentActivityVelocity_local (clockAt exampleNow) roundingRepos = 1"
  by (simp add: recentActivityVelocity_local_def ninetyDaysAgo_clockAt roundingRepos_def
      repo0_def msPerDay_def)

lemma rounding_activity: "activityScore_local (clockAt exampleNow) roundingRepos = 3"
  by (simp add: activityScore_local_def recencyMultiplier_def rounding_days rounding_velocity)

lemma rounding_originality: "originalityScore_local roundingRepos = 20"
  by (simp add: originalityScore_local_def originalityRatio_def originalRepos_def
      roundingRepos_def repo0_def)

lemma rounding_starBonus: "starBonus roundingRepos = 0"
  by (simp add: starBonus_def totalStars_def originalRepos_def roundingRepos_def repo0_def)

lemma rounding_languageBonus: "languageBonus roundingRepos = 5 / 2"
  by (simp add: languageBonus_def languages_def Boolean_def originalRepos_def
      roundingRepos_def repo0_def)

lemma rounding_diversity: "diversityScore_local roundingRepos = 5 / 2"
  by (simp add: diversityScore_local_def rounding_starBonus rounding_languageBonus)

lemma rounding_documentation: "documentationScore_local roundingRepos = 15 / 2"
  by (simp add: documentationScore_local_def docRatio_def reposWithDesc_def featureUsage_def
      descriptionLength_def originalRepos_def roundingRepos_def repo0_def)

lemma new_followerSignal: "followerSignal_local (clockAt exampleNow) newProfile = 0"
  by (simp add: followerSignal_local_def ageScore_def accountAgeYears_def followerScore_def
      newProfile_def clockAt_def)

lemma rounding_complexity: "complexityScore roundingRepos = 0"
  by (simp add: complexityScore_def avgSize_def originalRepos_def roundingRepos_def repo0_def)

lemma rounding_total:
  "totalScore (calculateHireabilityScore (clockAt exampleNow) newProfile roundingRepos) = 33"
  by (simp add: calculateHireabilityScore_def totalScore_local_def unroundedSum_def
      rounding_activity rounding_originality rounding_diversity rounding_documentation
      new_followerSignal rounding_complexity)

lemma rounding_fields:
  "activityScore (calculateHireabilityScore (clockAt exampleNow) newProfile roundingRepos) = 3
   \<and> originalityScore (calculateHireabilityScore (clockAt exampleNow) newProfile roundingRepos) = 20
   \<and> diversityScore (calculateHireabilityScore (clockAt exampleNow) newProfile roundingRepos) = 3
   \<and> documentationScore (calculateHireabilityScore (clockAt exampleNow) newProfile roundingRepos) = 8
   \<and> followerSignal (calculateHireabilityScore (clockAt exampleNow) newProfile roundingRepos) = 0
   \<and> starImpact (calculateHireabilityScore (clockAt exampleNow) newProfile roundingRepos) = 0
   \<and> round (complexityScore roundingRepos) = 0"
  by (simp add: calculateHireabilityScore_def round_def
      rounding_activity rounding_originality rounding_diversity rounding_documentation
      new_followerSignal rounding_complexity rounding_starBonus)

text \<open>
  The star-impact field is the rounded star bonus (0 here), not the rounded diversity
  score (3 here).
\<close>

lemma starImpact_differs_from_diversityScore:
  "starImpact (calculateHireabilityScore (clockAt exampleNow) newProfile roundingRepos) = 0
   \<and> diversityScore (calculateHireabilityScore (clockAt exampleNow) newProfile roundingRepos) = 3"
  by (simp add: rounding_fields)

subsection \<open>Other inputs\<close>

lemma ninetyDay_days: "daysSinceLastActivity_local (clockAt exampleNow) ninetyDayRepos = 90"
  by (simp add: daysSinceLastActivity_local_def ninetyDayRepos_def lastDate_single clockAt_def
      repo0_def msPerDay_def)

lemma forkLatest_velocity:
  "recentActivityVelocity_local (clockAt exampleNow) forkLatestRepos = 2"
  by (simp add: recentActivityVelocity_local_def forkLatestRepos_def ninetyDaysAgo_clockAt
      repo0_def msPerDay_def)

lemma three_originals:
  "originalRepos threeLanguageRepos =
     [repo0 \<lparr> language := Some ''Go'' \<rparr>,
      repo0 \<lparr> language := Some ''Rust'' \<rparr>,
      repo0 \<lparr> language := Some ''Go'' \<rparr>,
      repo0 \<lparr> language := Some '''' \<rparr>,
      repo0,
      repo0 \<lparr> language := Some ''C'' \<rparr>]"
  by (simp add: originalRepos_def threeLanguageRepos_def repo0_def)

lemma three_card: "card (languages threeLanguageRepos) = 3"
  by (simp add: languages_def three_originals Boolean_def repo0_def card_insert_if)

lemma three_stars: "sum_list (map stargazers_count (originalRepos threeLanguageRepos)) = 0"
  by (simp add: three_originals repo0_def)

lemma four_card: "card (languages fourLanguageRepos) = 5"
  by (simp add: languages_def originalRepos_def fourLanguageRepos_def Boolean_def repo0_def
      card_insert_if)

lemma doc_originals:
  "originalRepos docRepos =
     [repo0 \<lparr> description := Some ''abcdefghijklmnopqrstu'' \<rparr>,
      repo0 \<lparr> description := Some ''abcdefghijklmnopqrst'', has_pages := True \<rparr>,
      repo0]"
  by (simp add: originalRepos_def docRepos_def repo0_def)

section \<open>Properties of the specification\<close>

text \<open>
  C1. Each sub-score returned by \<^verbatim>\<open>calculateHireabilityScore\<close> is at least 0 and at
  most its maximum weight (30 for activity, 10 for maturity), also when a push time or
  the account creation time lies after the clock reading. The code does not keep this:
  with one repository pushed 900 days after the clock reading and an account created
  3650 days after it, the returned activity score is 33 and the returned maturity score
  (\<^verbatim>\<open>followerSignal\<close>) is -10. The source comments give 30 and 10 points as the
  maxima. Without such timestamps the ranges hold
  (\<open>sub_scores_in_range_without_future_timestamps\<close>).
\<close>

theorem C1_sub_scores_leave_range_on_future_timestamps:
  "activityScore (calculateHireabilityScore (clockAt exampleNow) futureProfile futureRepos) = 33
   \<and> 30 < activityScore (calculateHireabilityScore (clockAt exampleNow) futureProfile futureRepos)
   \<and> followerSignal (calculateHireabilityScore (clockAt exampleNow) futureProfile futureRepos) = - 10
   \<and> followerSignal (calculateHireabilityScore (clockAt exampleNow) futureProfile futureRepos) < 0"
  by (simp add: calculateHireabilityScore_def future_activity future_followerSignal)

text \<open>
  C2. For the empty repository list the engine returns activity, originality,
  diversity and documentation scores 0, the day gap 999, the level INACTIVE, the
  velocity 0 and \<^verbatim>\<open>'N/A'\<close> as last push; the unrounded sub-scores, complexity
  included, are 0. This holds for every clock and every profile.
\<close>

theorem C2_empty_repository_list:
  "activityScore (calculateHireabilityScore c profile []) = 0
   \<and> originalityScore (calculateHireabilityScore c profile []) = 0
   \<and> diversityScore (calculateHireabilityScore c profile []) = 0
   \<and> documentationScore (calculateHireabilityScore c profile []) = 0
   \<and> activityScore_local c [] = 0
   \<and> originalityScore_local [] = 0
   \<and> diversityScore_local [] = 0
   \<and> documentationScore_local [] = 0
   \<and> complexityScore [] = 0
   \<and> daysSinceLastActivity (calculateHireabilityScore c profile []) = 999
   \<and> activityLevel (calculateHireabilityScore c profile []) = INACTIVE
   \<and> recentActivityVelocity (calculateHireabilityScore c profile []) = 0
   \<and> lastCommitDate (calculateHireabilityScore c profile []) = NA"
proof -
  have d: "daysSinceLastActivity_local c [] = 999"
    by (simp add: daysSinceLastActivity_local_def)
  have v: "recentActivityVelocity_local c [] = 0"
    by (simp add: recentActivityVelocity_local_def)
  have lv: "activityLevel_local c [] = INACTIVE"
    by (simp add: activityLevel_local_def d v)
  have lc: "lastCommitDate_local [] = NA"
    by (simp add: lastCommitDate_local_def)
  show ?thesis
    by (simp add: calculateHireabilityScore_def d v lv lc activityScore_local_Nil
        originalityScore_local_Nil diversityScore_local_Nil documentationScore_local_Nil
        complexityScore_Nil)
qed

text \<open>
  For every input the total score is the rounding of the sum of the six unrounded
  sub-scores, not the sum of the rounded ones, and it is non-negative whenever the
  account creation time is not after the clock reading.
\<close>

lemma total_is_rounded_sum_of_unrounded:
  "totalScore (calculateHireabilityScore c profile repos) =
     round (activityScore_local c repos + originalityScore_local repos
            + diversityScore_local repos + documentationScore_local repos
            + followerSignal_local c profile + complexityScore repos)
   \<and> (created_at profile \<le> nowTime c
        \<longrightarrow> 0 \<le> totalScore (calculateHireabilityScore c profile repos))"
proof -
  have t: "totalScore (calculateHireabilityScore c profile repos)
      = round (unroundedSum c profile repos)"
    by (simp add: calculateHireabilityScore_def totalScore_local_def)
  show ?thesis
    unfolding t using unroundedSum_nonneg [of profile c repos] round_nonneg
    by (auto simp add: unroundedSum_def)
qed

text \<open>
  In the example that follows the total is 33 while the individually rounded
  sub-scores add up to 34.
\<close>

lemma total_is_rounded_sum_of_unrounded_example:
  "created_at newProfile \<le> nowTime (clockAt exampleNow)
   \<and> totalScore (calculateHireabilityScore (clockAt exampleNow) newProfile roundingRepos) = 33
   \<and> 0 \<le> totalScore (calculateHireabilityScore (clockAt exampleNow) newProfile roundingRepos)
   \<and> activityScore (calculateHireabilityScore (clockAt exampleNow) newProfile roundingRepos)
       + originalityScore (calculateHireabilityScore (clockAt exampleNow) newProfile roundingRepos)
       + diversityScore (calculateHireabilityScore (clockAt exampleNow) newProfile roundingRepos)
       + documentationScore (calculateHireabilityScore (clockAt exampleNow) newProfile roundingRepos)
       + followerSignal (calculateHireabilityScore (clockAt exampleNow) newProfile roundingRepos)
       + round (complexityScore roundingRepos) = 34"
proof -
  have h: "created_at newProfile \<le> nowTime (clockAt exampleNow)"
    by (simp add: newProfile_def clockAt_def)
  from total_is_rounded_sum_of_unrounded [of "clockAt exampleNow" newProfile roundingRepos] h
  show ?thesis
    by (simp add: rounding_fields rounding_activity rounding_originality rounding_diversity
        rounding_documentation new_followerSignal rounding_complexity)
qed

text \<open>
  C3. For every input the total score is the rounding of the sum of the six unrounded
  sub-scores and is non-negative. The rounding holds
  (\<open>total_is_rounded_sum_of_unrounded\<close>); the code does not keep the total
  non-negative: for an account created 3650 days after the clock reading and no
  repositories the returned total is -10. The age score \<^verbatim>\<open>Math.min(5, accountAgeYears)\<close>
  has no floor at 0, where the recency multiplier of the activity score has one
  (\<^verbatim>\<open>Math.max(0, ...)\<close>); the negative maturity score is the one of C1.
\<close>

theorem C3_total_negative_for_future_account:
  "totalScore (calculateHireabilityScore (clockAt exampleNow) futureProfile []) = - 10
   \<and> \<not> 0 \<le> totalScore (calculateHireabilityScore (clockAt exampleNow) futureProfile [])"
proof -
  have "unroundedSum (clockAt exampleNow) futureProfile [] = - 10"
    by (simp add: unroundedSum_def future_followerSignal activityScore_local_Nil
        originalityScore_local_Nil diversityScore_local_Nil documentationScore_local_Nil
        complexityScore_Nil)
  then show ?thesis
    by (simp add: calculateHireabilityScore_def totalScore_local_def)
qed

text \<open>
  C4. For a non-empty repository list the unrounded activity score is
  min(10, velocity) * 3 * recency multiplier; the multiplier is 1 when the returned day
  gap is 0 and max(0, 1 - gap / 90) otherwise; a gap of 90 gives the multiplier 0, and
  the multiplier is never negative.
\<close>

theorem C4_activity_score_formula:
  assumes "repos \<noteq> []"
  shows "activityScore_local c repos =
           min 10 (real (recentActivityVelocity (calculateHireabilityScore c profile repos))) * 3
             * recencyMultiplier c repos
         \<and> recencyMultiplier c repos =
             (if daysSinceLastActivity (calculateHireabilityScore c profile repos) = 0 then 1
              else max 0 (1 - real_of_int (daysSinceLastActivity
                     (calculateHireabilityScore c profile repos)) / 90))
         \<and> (daysSinceLastActivity (calculateHireabilityScore c profile repos) = 90
              \<longrightarrow> recencyMultiplier c repos = 0)
         \<and> 0 \<le> recencyMultiplier c repos"
  by (simp add: calculateHireabilityScore_def activityScore_local_def recencyMultiplier_def)

theorem C4_activity_score_formula_witness:
  "ninetyDayRepos \<noteq> []
   \<and> daysSinceLastActivity (calculateHireabilityScore (clockAt exampleNow) newProfile ninetyDayRepos) = 90
   \<and> recencyMultiplier (clockAt exampleNow) ninetyDayRepos = 0
   \<and> activityScore_local (clockAt exampleNow) ninetyDayRepos = 0"
proof -
  have ne: "ninetyDayRepos \<noteq> []" by (simp add: ninetyDayRepos_def)
  have d: "daysSinceLastActivity (calculateHireabilityScore (clockAt exampleNow) newProfile ninetyDayRepos) = 90"
    by (simp add: calculateHireabilityScore_def ninetyDay_days)
  from C4_activity_score_formula [OF ne, of "clockAt exampleNow" newProfile] d ne
  show ?thesis by simp
qed

text \<open>
  C5. For a non-empty repository list the returned day gap is the floor of the
  difference, in days, between the clock reading and the greatest push time over all
  repositories (forks included), and the activity level is HIGHLY_ACTIVE when the gap
  is at most 7 and the velocity at least 5, otherwise MODERATELY_ACTIVE when the gap is
  at most 30 and the velocity at least 1, otherwise INACTIVE.
\<close>

theorem C5_day_gap_and_activity_level:
  assumes "repos \<noteq> []"
  shows "daysSinceLastActivity (calculateHireabilityScore c profile repos) =
           \<lfloor>real_of_int (nowTime c - Max (pushed_at ` set repos)) / real_of_int msPerDay\<rfloor>
         \<and> daysSinceLastActivity (calculateHireabilityScore c profile repos) =
           (nowTime c - Max (pushed_at ` set repos)) div msPerDay
         \<and> lastCommitDate (calculateHireabilityScore c profile repos) =
           ISO (Max (pushed_at ` set repos))
         \<and> activityLevel (calculateHireabilityScore c profile repos) =
           (if daysSinceLastActivity (calculateHireabilityScore c profile repos) \<le> 7
               \<and> recentActivityVelocity (calculateHireabilityScore c profile repos) \<ge> 5
            then HIGHLY_ACTIVE
            else if daysSinceLastActivity (calculateHireabilityScore c profile repos) \<le> 30
               \<and> recentActivityVelocity (calculateHireabilityScore c profile repos) \<ge> 1
            then MODERATELY_ACTIVE
            else INACTIVE)"
proof -
  have m: "lastDate repos = Max (pushed_at ` set repos)"
    using assms by (rule lastDate_Max)
  have d: "daysSinceLastActivity_local c repos = (nowTime c - lastDate repos) div msPerDay"
    using assms by (rule days_div)
  have f: "\<lfloor>real_of_int (nowTime c - lastDate repos) / real_of_int msPerDay\<rfloor>
      = (nowTime c - lastDate repos) div msPerDay"
    by (rule floor_divide_of_int_eq)
  have l: "lastCommitDate_local repos = ISO (lastDate repos)"
    using assms by (simp add: lastCommitDate_local_def)
  show ?thesis
    unfolding m [symmetric] f
    by (simp add: calculateHireabilityScore_def d l activityLevel_local_def)
qed

text \<open>
  In the example that follows the latest push is that of a fork.
\<close>

theorem C5_day_gap_and_activity_level_witness:
  "forkLatestRepos \<noteq> []
   \<and> Max (pushed_at ` set forkLatestRepos) = exampleNow - 3 * msPerDay
   \<and> daysSinceLastActivity (calculateHireabilityScore (clockAt exampleNow) newProfile forkLatestRepos) = 3
   \<and> activityLevel (calculateHireabilityScore (clockAt exampleNow) newProfile forkLatestRepos)
        = MODERATELY_ACTIVE"
proof -
  have ne: "forkLatestRepos \<noteq> []" by (simp add: forkLatestRepos_def)
  have mx: "Max (pushed_at ` set forkLatestRepos) = exampleNow - 3 * msPerDay"
    by (simp add: forkLatestRepos_def repo0_def msPerDay_def)
  have v: "recentActivityVelocity (calculateHireabilityScore (clockAt exampleNow) newProfile forkLatestRepos) = 2"
    by (simp add: calculateHireabilityScore_def forkLatest_velocity)
  have q: "(nowTime (clockAt exampleNow) - (exampleNow - 3 * msPerDay)) div msPerDay = 3"
    by (simp add: clockAt_def msPerDay_def)
  from C5_day_gap_and_activity_level [OF ne, of "clockAt exampleNow" newProfile]
  show ?thesis
    unfolding mx q v using ne by (simp add: clockAt_def exampleNow_def msPerDay_def)
qed

text \<open>
  C6. The unrounded diversity score is the star bonus min(5, 5 * log10(stars + 1) / 2),
  over the stars of the original repositories, plus the language bonus
  min(10, 10 * n / 4), where n counts the distinct non-empty languages of the original
  repositories. No stars give the star bonus 0, three languages the language bonus 7.5,
  four or more the language bonus 10.
\<close>

theorem C6_diversity_score:
  "starBonus repos =
     min 5 (5 * log 10 (real (sum_list (map stargazers_count (originalRepos repos))) + 1) / 2)
   \<and> languageBonus repos =
     min 10 (10 * real (card {l. l \<noteq> [] \<and> (\<exists>r \<in> set (originalRepos repos). language r = Some l)}) / 4)
   \<and> diversityScore_local repos = starBonus repos + languageBonus repos
   \<and> (sum_list (map stargazers_count (originalRepos repos)) = 0 \<longrightarrow> starBonus repos = 0)
   \<and> (card {l. l \<noteq> [] \<and> (\<exists>r \<in> set (originalRepos repos). language r = Some l)} = 3
        \<longrightarrow> languageBonus repos = 7.5)
   \<and> (card {l. l \<noteq> [] \<and> (\<exists>r \<in> set (originalRepos repos). language r = Some l)} \<ge> 4
        \<longrightarrow> languageBonus repos = 10)"
proof -
  let ?n = "card {l. l \<noteq> [] \<and> (\<exists>r \<in> set (originalRepos repos). language r = Some l)}"
  have s: "starBonus repos =
      min 5 (5 * log 10 (real (sum_list (map stargazers_count (originalRepos repos))) + 1) / 2)"
    by (simp add: starBonus_def totalStars_sum_list)
  have l: "languageBonus repos = min 10 (10 * real ?n / 4)"
    by (simp add: languageBonus_def card_languages)
  have d: "diversityScore_local repos = starBonus repos + languageBonus repos"
    by (simp add: diversityScore_local_def)
  have z: "sum_list (map stargazers_count (originalRepos repos)) = 0 \<longrightarrow> starBonus repos = 0"
  proof
    assume h: "sum_list (map stargazers_count (originalRepos repos)) = 0"
    show "starBonus repos = 0" unfolding s h by simp
  qed
  have t: "?n = 3 \<longrightarrow> languageBonus repos = 7.5"
    by (simp add: l)
  have f: "?n \<ge> 4 \<longrightarrow> languageBonus repos = 10"
    by (simp add: l)
  from s l d z t f show ?thesis by blast
qed

theorem C6_diversity_score_witness:
  "sum_list (map stargazers_count (originalRepos threeLanguageRepos)) = 0
   \<and> card {l. l \<noteq> [] \<and> (\<exists>r \<in> set (originalRepos threeLanguageRepos). language r = Some l)} = 3
   \<and> starBonus threeLanguageRepos = 0
   \<and> languageBonus threeLanguageRepos = 7.5
   \<and> diversityScore_local threeLanguageRepos = 7.5
   \<and> card {l. l \<noteq> [] \<and> (\<exists>r \<in> set (originalRepos fourLanguageRepos). language r = Some l)} \<ge> 4
   \<and> languageBonus fourLanguageRepos = 10"
proof -
  have n3: "card {l. l \<noteq> [] \<and> (\<exists>r \<in> set (originalRepos threeLanguageRepos). language r = Some l)} = 3"
    using three_card by (simp only: card_languages)
  have n4: "card {l. l \<noteq> [] \<and> (\<exists>r \<in> set (originalRepos fourLanguageRepos). language r = Some l)} \<ge> 4"
    using four_card by (simp only: card_languages)
  from C6_diversity_score [of threeLanguageRepos] C6_diversity_score [of fourLanguageRepos]
    n3 n4 three_stars
  show ?thesis by simp
qed

text \<open>
  C7. The unrounded documentation score is 15 * (a + b) / (2 * n) over the n original
  repositories, a of which have a description longer than 20 characters and b of which
  have at least one of the three feature flags set; it is 0, as is the ratio, when there
  is no original repository. An absent description has length 0.
\<close>

theorem C7_documentation_score:
  "documentationScore_local repos =
     (if originalRepos repos = [] then 0
      else 15 * real (length (filter (\<lambda>r. 20 < (case description r of None \<Rightarrow> 0 | Some d \<Rightarrow> length d))
                                (originalRepos repos))
                    + length (filter (\<lambda>r. has_issues r \<or> has_projects r \<or> has_pages r)
                                (originalRepos repos)))
             / (2 * real (length (originalRepos repos))))
   \<and> (originalRepos repos = [] \<longrightarrow> docRatio repos = 0)
   \<and> (description r = None \<longrightarrow> descriptionLength r = 0 \<and> \<not> 20 < descriptionLength r)"
proof -
  have f: "(\<lambda>r. has_issues r \<or> has_pages r \<or> has_projects r)
      = (\<lambda>r. has_issues r \<or> has_projects r \<or> has_pages r)"
    by auto
  have d: "descriptionLength = (\<lambda>r. case description r of None \<Rightarrow> 0 | Some d \<Rightarrow> length d)"
    by (rule ext) (simp add: descriptionLength_def)
  have 1: "documentationScore_local repos =
     (if originalRepos repos = [] then 0
      else 15 * real (length (filter (\<lambda>r. 20 < (case description r of None \<Rightarrow> 0 | Some d \<Rightarrow> length d))
                                (originalRepos repos))
                    + length (filter (\<lambda>r. has_issues r \<or> has_projects r \<or> has_pages r)
                                (originalRepos repos)))
             / (2 * real (length (originalRepos repos))))"
    by (simp add: documentationScore_local_def docRatio_def reposWithDesc_def featureUsage_def f d
        algebra_simps)
  have 2: "originalRepos repos = [] \<longrightarrow> docRatio repos = 0"
    by (simp add: docRatio_def)
  have 3: "description r = None \<longrightarrow> descriptionLength r = 0 \<and> \<not> 20 < descriptionLength r"
    by (simp add: descriptionLength_def)
  from 1 2 3 show ?thesis by blast
qed

text \<open>
  In the example that follows a description of 21 characters counts and one of 20
  does not.
\<close>

theorem C7_documentation_score_witness:
  "originalRepos [] = [] \<and> docRatio [] = 0
   \<and> description repo0 = None \<and> descriptionLength repo0 = 0
   \<and> originalRepos docRepos \<noteq> []
   \<and> documentationScore_local docRepos = 5"
proof -
  have e: "originalRepos [] = []" by (simp add: originalRepos_def)
  have n: "description repo0 = None" by (simp add: repo0_def)
  from C7_documentation_score [of "[]" repo0] C7_documentation_score [of docRepos repo0] e n
  show ?thesis
    by (simp add: doc_originals repo0_def)
qed

text \<open>
  C8. In the returned record \<^verbatim>\<open>repoCountScore\<close> is the rounded originality score,
  equal to the field \<^verbatim>\<open>originalityScore\<close>, and \<^verbatim>\<open>starImpact\<close> is the rounded star
  bonus alone.
\<close>

theorem C8_alias_fields:
  "repoCountScore (calculateHireabilityScore c profile repos) = round (originalityScore_local repos)
   \<and> repoCountScore (calculateHireabilityScore c profile repos)
       = originalityScore (calculateHireabilityScore c profile repos)
   \<and> starImpact (calculateHireabilityScore c profile repos) = round (starBonus repos)"
  by (simp add: calculateHireabilityScore_def)

text \<open>
  C9. Two calls with the same profile, the same repositories and the same \<^verbatim>\<open>now\<close>
  return the same record. The code does not keep this: \<^verbatim>\<open>ninetyDaysAgo\<close> starts from
  a second reading of the clock. With a repository pushed exactly 90 days before
  \<^verbatim>\<open>now\<close>, the returned velocity is 1 when the second reading equals the first and 0
  when it is one millisecond later.
\<close>

theorem C9_output_depends_on_second_clock_reading:
  "nowTime lateClock = nowTime (clockAt exampleNow)
   \<and> recentActivityVelocity (calculateHireabilityScore (clockAt exampleNow) newProfile ninetyDayRepos) = 1
   \<and> recentActivityVelocity (calculateHireabilityScore lateClock newProfile ninetyDayRepos) = 0
   \<and> calculateHireabilityScore (clockAt exampleNow) newProfile ninetyDayRepos
       \<noteq> calculateHireabilityScore lateClock newProfile ninetyDayRepos"
proof -
  have n1: "ninetyDaysAgo (clockAt exampleNow) = exampleNow - 90 * msPerDay"
    by (rule ninetyDaysAgo_clockAt)
  have n2: "ninetyDaysAgo lateClock = exampleNow + 1 - 90 * msPerDay"
  proof -
    have "Day (exampleNow + 1) = Day exampleNow"
      by (simp add: Day_def exampleNow_def msPerDay_def)
    then have "getDate 0 (exampleNow + 1) = getDate 0 exampleNow"
      by (simp add: getDate_def DateFromTime_def)
    then have "setDate 0 (exampleNow + 1) (getDate 0 exampleNow - 90) = exampleNow + 1 - 90 * msPerDay"
      using setDate_getDate_same [of 0 "exampleNow + 1" 90] by simp
    then show ?thesis by (simp add: ninetyDaysAgo_def lateClock_def)
  qed
  have v1: "recentActivityVelocity_local (clockAt exampleNow) ninetyDayRepos = 1"
    by (simp add: recentActivityVelocity_local_def n1 ninetyDayRepos_def repo0_def)
  have v2: "recentActivityVelocity_local lateClock ninetyDayRepos = 0"
    by (simp add: recentActivityVelocity_local_def n2 ninetyDayRepos_def repo0_def)
  have f1: "recentActivityVelocity (calculateHireabilityScore (clockAt exampleNow) newProfile ninetyDayRepos) = 1"
    by (simp add: calculateHireabilityScore_def v1)
  have f2: "recentActivityVelocity (calculateHireabilityScore lateClock newProfile ninetyDayRepos) = 0"
    by (simp add: calculateHireabilityScore_def v2)
  have c: "nowTime lateClock = nowTime (clockAt exampleNow)"
    by (simp add: lateClock_def clockAt_def)
  from f1 f2 have "calculateHireabilityScore (clockAt exampleNow) newProfile ninetyDayRepos
       \<noteq> calculateHireabilityScore lateClock newProfile ninetyDayRepos"
    by auto
  with c f1 f2 show ?thesis by simp
qed

text \<open>
  C10. For a non-empty repository list whose latest push lies a whole day or more
  after the clock reading, the returned day gap is the floor of the signed difference
  in days, hence negative, and the recency multiplier is 1 - gap / 90 on this value,
  hence greater than 1.
\<close>

theorem C10_future_push_gives_negative_day_gap:
  assumes "repos \<noteq> []"
    and "nowTime c + msPerDay \<le> Max (pushed_at ` set repos)"
  shows "daysSinceLastActivity (calculateHireabilityScore c profile repos) =
           \<lfloor>real_of_int (nowTime c - Max (pushed_at ` set repos)) / real_of_int msPerDay\<rfloor>
         \<and> daysSinceLastActivity (calculateHireabilityScore c profile repos) < 0
         \<and> recencyMultiplier c repos =
             1 - real_of_int (daysSinceLastActivity (calculateHireabilityScore c profile repos)) / 90
         \<and> 1 < recencyMultiplier c repos
         \<and> activityScore_local c repos =
             min 10 (real (recentActivityVelocity (calculateHireabilityScore c profile repos))) * 3
               * (1 - real_of_int (daysSinceLastActivity (calculateHireabilityScore c profile repos)) / 90)"
proof -
  let ?d = "daysSinceLastActivity_local c repos"
  have m: "lastDate repos = Max (pushed_at ` set repos)"
    using assms(1) by (rule lastDate_Max)
  have d: "?d = (nowTime c - lastDate repos) div msPerDay"
    using assms(1) by (rule days_div)
  have f: "\<lfloor>real_of_int (nowTime c - lastDate repos) / real_of_int msPerDay\<rfloor>
      = (nowTime c - lastDate repos) div msPerDay"
    by (rule floor_divide_of_int_eq)
  have "nowTime c - lastDate repos < 0"
    using assms(2) msPerDay_pos by (simp add: m)
  then have neg: "?d < 0"
    using msPerDay_pos by (simp add: d pos_imp_zdiv_neg_iff)
  then have r: "recencyMultiplier c repos = 1 - real_of_int ?d / 90"
    by (simp add: recencyMultiplier_def)
  have g: "1 < recencyMultiplier c repos"
    using neg by (simp add: r)
  show ?thesis
    unfolding m [symmetric] f
    using neg g r by (simp add: calculateHireabilityScore_def d [symmetric] activityScore_local_def)
qed

theorem C10_future_push_gives_negative_day_gap_witness:
  "futureRepos \<noteq> []
   \<and> nowTime (clockAt exampleNow) + msPerDay \<le> Max (pushed_at ` set futureRepos)
   \<and> daysSinceLastActivity (calculateHireabilityScore (clockAt exampleNow) newProfile futureRepos) = - 900
   \<and> recencyMultiplier (clockAt exampleNow) futureRepos = 11"
proof -
  have ne: "futureRepos \<noteq> []" by (simp add: futureRepos_def)
  have mx: "nowTime (clockAt exampleNow) + msPerDay \<le> Max (pushed_at ` set futureRepos)"
    by (simp add: futureRepos_def repo0_def clockAt_def msPerDay_def)
  have d: "daysSinceLastActivity (calculateHireabilityScore (clockAt exampleNow) newProfile futureRepos) = - 900"
    by (simp add: calculateHireabilityScore_def future_days)
  from C10_future_push_gives_negative_day_gap [OF ne mx, of newProfile] ne mx d
  show ?thesis by simp
qed

end
